theory Spec2Isabelle
  imports Complex_Main
begin

section \<open>FactorLab backtest core: ledger, rebalance scheduling, simulation loop\<close>

text \<open>
  A shallow embedding of \<^verbatim>\<open>factorlabs/backtest/portfolio.py\<close> and
  \<^verbatim>\<open>factorlabs/backtest/backtester.py\<close>.

  Numbers: Python's \<^verbatim>\<open>float\<close> values (cash, shares, prices) are modelled as exact
  rationals (\<^typ>\<open>rat\<close>). Comparisons, sums, products and quotients are the exact ones;
  rounding, infinities and NaN are outside the model. A float division by zero raises
  \<^verbatim>\<open>ZeroDivisionError\<close> in Python and is a branch of the model.

  Dictionaries: a Python \<^verbatim>\<open>dict\<close> keeps its keys in insertion order, and
  \<^verbatim>\<open>sum(... for pos in self.positions.values())\<close> walks it in that order. The positions
  dictionary is an association list with the dictionary's own update discipline
  (\<open>dict_set\<close> overwrites in place or appends, \<open>dict_del\<close> removes the key), so that
  key uniqueness is a property to be proved and not one of the type.
\<close>

subsection \<open>Dictionaries in insertion order\<close>

fun dict_set :: "('k \<times> 'v) list \<Rightarrow> 'k \<Rightarrow> 'v \<Rightarrow> ('k \<times> 'v) list" where
  "dict_set [] k v = [(k, v)]"
| "dict_set ((k', v') # d) k v =
     (if k' = k then (k, v) # d else (k', v') # dict_set d k v)"

fun dict_del :: "('k \<times> 'v) list \<Rightarrow> 'k \<Rightarrow> ('k \<times> 'v) list" where
  "dict_del [] k = []"
| "dict_del ((k', v') # d) k = (if k' = k then d else (k', v') # dict_del d k)"

definition dict_get :: "('k \<times> 'v) list \<Rightarrow> 'k \<Rightarrow> 'v option" where
  "dict_get d k = map_of d k"

definition dict_keys :: "('k \<times> 'v) list \<Rightarrow> 'k list" where
  "dict_keys d = map fst d"

definition dict_values :: "('k \<times> 'v) list \<Rightarrow> 'v list" where
  "dict_values d = map snd d"

text \<open>\<^verbatim>\<open>prices.get(key, default)\<close> on a price map.\<close>

definition get_or :: "('k \<rightharpoonup> 'v) \<Rightarrow> 'k \<Rightarrow> 'v \<Rightarrow> 'v" where
  "get_or m k dflt = (case m k of None \<Rightarrow> dflt | Some v \<Rightarrow> v)"

text \<open>Python's built-in \<^verbatim>\<open>sum\<close>: start at 0 and add the items from left to right.\<close>

definition py_sum :: "rat list \<Rightarrow> rat" where
  "py_sum xs = foldl (+) 0 xs"

subsection \<open>Dates\<close>

text \<open>
  A \<^verbatim>\<open>datetime.date\<close> is modelled by its proleptic Gregorian ordinal
  (\<^verbatim>\<open>date.toordinal()\<close>, day 1 is 0001-01-01), so that
  \<^verbatim>\<open>(a - b).days\<close> is the difference of two ordinals and the next calendar day is the
  next integer. The attributes \<^verbatim>\<open>.year\<close> and \<^verbatim>\<open>.month\<close> are computed from the
  ordinal the way the datetime library does it (\<^verbatim>\<open>_ord2ymd\<close>), and \<open>mk_date\<close> is the
  constructor \<^verbatim>\<open>date(y, m, d)\<close> (\<^verbatim>\<open>_ymd2ord\<close>).
\<close>

type_synonym date = int

definition is_leap :: "int \<Rightarrow> bool" where
  "is_leap y = (y mod 4 = 0 \<and> (y mod 100 \<noteq> 0 \<or> y mod 400 = 0))"

definition days_before_year :: "int \<Rightarrow> int" where
  "days_before_year y =
     (let y1 = y - 1 in y1 * 365 + y1 div 4 - y1 div 100 + y1 div 400)"

definition days_in_month_tbl :: "int list" where
  "days_in_month_tbl = [31, 28, 31, 30, 31, 30, 31, 31, 30, 31, 30, 31]"

definition days_in_month_plain :: "int \<Rightarrow> int" where
  "days_in_month_plain m = days_in_month_tbl ! nat (m - 1)"

definition days_before_month_plain :: "int \<Rightarrow> int" where
  "days_before_month_plain m = sum_list (take (nat (m - 1)) days_in_month_tbl)"

definition days_before_month :: "int \<Rightarrow> int \<Rightarrow> int" where
  "days_before_month y m =
     days_before_month_plain m + (if m > 2 \<and> is_leap y then 1 else 0)"

definition mk_date :: "int \<Rightarrow> int \<Rightarrow> int \<Rightarrow> date" where
  "mk_date y m d = days_before_year y + days_before_month y m + d"

definition ord2ymd :: "int \<Rightarrow> int \<times> int \<times> int" where
  "ord2ymd n0 =
     (let n = n0 - 1;
          n400 = n div 146097; n = n mod 146097;
          year = n400 * 400 + 1;
          n100 = n div 36524; n = n mod 36524;
          n4 = n div 1461; n = n mod 1461;
          n1 = n div 365; n = n mod 365;
          year = year + n100 * 100 + n4 * 4 + n1
      in if n1 = 4 \<or> n100 = 4 then (year - 1, 12, 31)
         else
           let leapyear = (n1 = 3 \<and> (n4 \<noteq> 24 \<or> n100 = 3));
               month = (n + 50) div 32;
               preceding = days_before_month_plain month
                             + (if month > 2 \<and> leapyear then 1 else 0)
           in if preceding > n
              then
                let month = month - 1;
                    preceding = preceding - (days_in_month_plain month
                                  + (if month = 2 \<and> leapyear then 1 else 0))
                in (year, month, n - preceding + 1)
              else (year, month, n - preceding + 1))"

definition year_of :: "date \<Rightarrow> int" where
  "year_of d = fst (ord2ymd d)"

definition month_of :: "date \<Rightarrow> int" where
  "month_of d = fst (snd (ord2ymd d))"

definition day_of :: "date \<Rightarrow> int" where
  "day_of d = snd (snd (ord2ymd d))"

definition days_between :: "date \<Rightarrow> date \<Rightarrow> int" where
  "days_between a b = a - b"

subsection \<open>The ledger: \<^verbatim>\<open>Position\<close> and \<^verbatim>\<open>Portfolio\<close>\<close>

record position =
  ticker :: string
  shares :: rat
  entry_price :: rat
  entry_date :: date

record portfolio =
  cash :: rat
  positions :: "(string \<times> position) list"

text \<open>
  Every failure of the ledger is a \<^verbatim>\<open>raise ValueError(...)\<close> in the source; the
  constructors name the raise sites after the error taxonomy of the specification:
  \<open>InsufficientCash\<close> is \<^verbatim>\<open>"Insufficient cash: ..."\<close>, \<open>InvalidOrder\<close> is
  \<^verbatim>\<open>"Shares must be positive"\<close>, \<open>NoPosition\<close> is \<^verbatim>\<open>"No position in ..."\<close>,
  \<open>InsufficientShares\<close> is \<^verbatim>\<open>"Insufficient shares: ..."\<close>. \<open>ZeroDivisionError\<close> and
  \<open>TypeError\<close> are the interpreter's own exceptions; \<open>MissingPrice\<close> and
  \<open>InvalidState\<close> belong to the trade planner.
\<close>

datatype error =
    InsufficientCash
  | InvalidOrder
  | NoPosition
  | InsufficientShares
  | ZeroDivisionError
  | TypeError
  | MissingPrice
  | InvalidState

text \<open>\<^verbatim>\<open>Portfolio(initial_cash)\<close>.\<close>

definition Portfolio :: "rat \<Rightarrow> portfolio" where
  "Portfolio initial_cash = \<lparr>cash = initial_cash, positions = []\<rparr>"

text \<open>
  \<^verbatim>\<open>Portfolio.get_total_value(prices=None)\<close>. The optional argument is an
  \<open>option\<close>: \<open>None\<close> is the call without a price map.
\<close>

definition get_total_value :: "portfolio \<Rightarrow> (string \<rightharpoonup> rat) option \<Rightarrow> rat" where
  "get_total_value p prices =
     (case prices of
        None \<Rightarrow> cash p
      | Some pm \<Rightarrow>
          let positions_value =
                py_sum (map (\<lambda>pos. shares pos * get_or pm (ticker pos) 0)
                            (dict_values (positions p)))
          in cash p + positions_value)"

text \<open>
  \<^verbatim>\<open>Portfolio.buy\<close> and \<^verbatim>\<open>Portfolio.sell\<close> mutate the ledger and may raise after a
  part of the mutation is done (\<^verbatim>\<open>self.cash -= cost\<close> comes before the division in
  \<open>buy\<close>). A failure therefore carries the ledger as the exception leaves it:
  \<open>Inl (e, p')\<close>; success is \<open>Inr p'\<close>.
\<close>

definition buy ::
  "portfolio \<Rightarrow> string \<Rightarrow> rat \<Rightarrow> rat \<Rightarrow> date \<Rightarrow> (error \<times> portfolio) + portfolio" where
  "buy p tk sh price d =
     (let cost = sh * price in
      if cost > cash p then Inl (InsufficientCash, p)
      else
        let p1 = p\<lparr>cash := cash p - cost\<rparr> in
        (case dict_get (positions p1) tk of
           Some existing \<Rightarrow>
             let total_shares = shares existing + sh in
             if total_shares = 0 then Inl (ZeroDivisionError, p1)
             else
               let avg_price =
                     (shares existing * entry_price existing + sh * price) / total_shares
               in Inr (p1\<lparr>positions := dict_set (positions p1) tk
                          \<lparr>ticker = tk, shares = total_shares,
                           entry_price = avg_price, entry_date = entry_date existing\<rparr>\<rparr>)
         | None \<Rightarrow>
             Inr (p1\<lparr>positions := dict_set (positions p1) tk
                    \<lparr>ticker = tk, shares = sh, entry_price = price, entry_date = d\<rparr>\<rparr>)))"

definition sell ::
  "portfolio \<Rightarrow> string \<Rightarrow> rat \<Rightarrow> rat \<Rightarrow> date \<Rightarrow> (error \<times> portfolio) + portfolio" where
  "sell p tk sh price d =
     (if sh \<le> 0 then Inl (InvalidOrder, p)
      else
        (case dict_get (positions p) tk of
           None \<Rightarrow> Inl (NoPosition, p)
         | Some held \<Rightarrow>
             if sh > shares held then Inl (InsufficientShares, p)
             else
               let proceeds = sh * price;
                   p1 = p\<lparr>cash := cash p + proceeds\<rparr>
               in if sh = shares held
                  then Inr (p1\<lparr>positions := dict_del (positions p1) tk\<rparr>)
                  else Inr (p1\<lparr>positions := dict_set (positions p1) tk
                              (held\<lparr>shares := shares held - sh\<rparr>)\<rparr>)))"

text \<open>
  The ledger invariant of the data model: cash is not negative, every stored position
  has a positive number of shares, and no ticker is stored twice.
\<close>

definition ledger_inv :: "portfolio \<Rightarrow> bool" where
  "ledger_inv p =
     (0 \<le> cash p
      \<and> list_all (\<lambda>pos. 0 < shares pos) (dict_values (positions p))
      \<and> distinct (dict_keys (positions p)))"


subsection \<open>Rebalance scheduling: \<^verbatim>\<open>Backtester._should_rebalance\<close>\<close>

text \<open>
  The frequency is a string in the source and the chain of \<^verbatim>\<open>if\<close>/\<^verbatim>\<open>elif\<close> falls
  through to \<^verbatim>\<open>return False\<close>. In the weekly branch the source subtracts
  \<^verbatim>\<open>last_rebalance_date\<close> from the current date without a test for \<^verbatim>\<open>None\<close>;
  \<^verbatim>\<open>date - None\<close> raises \<^verbatim>\<open>TypeError\<close>.
\<close>

definition should_rebalance :: "date \<Rightarrow> date option \<Rightarrow> string \<Rightarrow> error + bool" where
  "should_rebalance current_date last_rebalance_date frequency =
     (if frequency = ''never'' then
        (if last_rebalance_date = None then Inr True else Inr False)
      else if frequency = ''daily'' then Inr True
      else if frequency = ''weekly'' then
        (case last_rebalance_date of
           None \<Rightarrow> Inl TypeError
         | Some l \<Rightarrow> if 7 \<le> days_between current_date l then Inr True else Inr False)
      else if frequency = ''monthly'' then
        (case last_rebalance_date of
           None \<Rightarrow> Inr True
         | Some l \<Rightarrow>
             Inr (month_of l \<noteq> month_of current_date \<or> year_of l \<noteq> year_of current_date))
      else Inr False)"

subsection \<open>Trades, price table, configuration and result\<close>

text \<open>
  \<^verbatim>\<open>Trade\<close> is declared in \<^verbatim>\<open>rebalancer.py\<close>, which is not among the sources; its
  fields are the ones \<^verbatim>\<open>Backtester.run\<close> reads (\<^verbatim>\<open>date\<close>, \<^verbatim>\<open>ticker\<close>,
  \<^verbatim>\<open>shares\<close>, \<^verbatim>\<open>price\<close>, \<^verbatim>\<open>side\<close>). The trade log holds dictionaries with
  the same five keys, so one record type serves both. The price table is the list of the
  rows \<^verbatim>\<open>{date, ticker, close}\<close> of the data frame.
\<close>

record trade =
  trade_date :: date
  trade_ticker :: string
  trade_shares :: rat
  trade_price :: rat
  side :: string

record price_row =
  row_date :: date
  row_ticker :: string
  close :: rat

record equity_record =
  er_date :: date
  portfolio_value :: rat
  er_cash :: rat
  positions_value :: rat

record backtest_config =
  start_date :: date
  end_date :: date
  initial_cash :: rat
  rebalance_frequency :: string
  transaction_cost :: rat

record backtest_result =
  equity_curve :: "equity_record list"
  trades :: "trade list"

subsection \<open>The trade planner\<close>

text \<open>
  Modelled from the spec: \<^verbatim>\<open>Rebalancer.calculate_trades\<close> (the file
  \<^verbatim>\<open>rebalancer.py\<close> is missing from the sources), after section 4.2 of the
  specification. The tickers are the keys of the target weights followed by the held
  tickers; the tolerance is the absolute \<open>1e-9\<close> the specification gives as its example.
  The specification leaves open what happens when a trade is due for a ticker that has a
  zero target and no price, or a price of 0: the model reports \<open>MissingPrice\<close> there,
  since no trade can be priced.
\<close>

definition tolerance :: rat where
  "tolerance = 1 / 1000000000"

definition plan_ticker ::
  "portfolio \<Rightarrow> (string \<times> rat) list \<Rightarrow> (string \<rightharpoonup> rat) \<Rightarrow> date \<Rightarrow> rat \<Rightarrow> string
     \<Rightarrow> error + trade list" where
  "plan_ticker p target_weights prices trade_date' total_value tk =
     (let weight = (case dict_get target_weights tk of None \<Rightarrow> 0 | Some w \<Rightarrow> w);
          target_value = weight * total_value;
          current_shares = (case dict_get (positions p) tk of None \<Rightarrow> 0 | Some pos \<Rightarrow> shares pos)
      in case prices tk of
           None \<Rightarrow>
             if weight \<noteq> 0 then Inl MissingPrice
             else if \<bar>0 - current_shares\<bar> \<le> tolerance then Inr []
             else Inl MissingPrice
         | Some price \<Rightarrow>
             if price = 0 then Inl MissingPrice
             else
               let target_shares = target_value / price;
                   delta = target_shares - current_shares
               in if \<bar>delta\<bar> \<le> tolerance then Inr []
                  else if 0 < delta then
                    Inr [\<lparr>trade_date = trade_date', trade_ticker = tk, trade_shares = delta,
                          trade_price = price, side = ''buy''\<rparr>]
                  else
                    Inr [\<lparr>trade_date = trade_date', trade_ticker = tk, trade_shares = \<bar>delta\<bar>,
                          trade_price = price, side = ''sell''\<rparr>])"

fun gather :: "(error + 'a list) list \<Rightarrow> error + 'a list" where
  "gather [] = Inr []"
| "gather (r # rs) =
     (case r of
        Inl e \<Rightarrow> Inl e
      | Inr xs \<Rightarrow> (case gather rs of Inl e \<Rightarrow> Inl e | Inr ys \<Rightarrow> Inr (xs @ ys)))"

definition calculate_trades ::
  "portfolio \<Rightarrow> (string \<times> rat) list \<Rightarrow> (string \<rightharpoonup> rat) \<Rightarrow> date \<Rightarrow> error + trade list" where
  "calculate_trades p target_weights prices trade_date' =
     (let total_value = get_total_value p (Some prices) in
      if total_value \<le> 0 then Inl InvalidState
      else
        let tickers = remdups (dict_keys target_weights @ dict_keys (positions p)) in
        case gather (map (plan_ticker p target_weights prices trade_date' total_value) tickers) of
          Inl e \<Rightarrow> Inl e
        | Inr ts \<Rightarrow>
            Inr (filter (\<lambda>t. side t = ''sell'') ts @ filter (\<lambda>t. side t = ''buy'') ts))"

subsection \<open>The simulation loop: \<^verbatim>\<open>Backtester.run\<close>\<close>

text \<open>
  Modelled from the spec: \<^verbatim>\<open>Portfolio.get_holdings_value\<close>, which \<^verbatim>\<open>run\<close> calls
  and \<^verbatim>\<open>portfolio.py\<close> as given does not define. The specification has it return the
  market value per held ticker, with the missing-price policy of the total value.
\<close>

definition get_holdings_value :: "portfolio \<Rightarrow> (string \<rightharpoonup> rat) \<Rightarrow> (string \<times> rat) list" where
  "get_holdings_value p prices =
     map (\<lambda>(tk, pos). (tk, shares pos * get_or prices tk 0)) (positions p)"

text \<open>
  \<^verbatim>\<open>pl.date_range(start, end, "1d", eager=True).to_list()\<close>: every calendar day from
  \<open>start\<close> to \<open>end\<close>, both included, in ascending order; empty when \<open>end\<close> is before
  \<open>start\<close>.
\<close>

definition date_range :: "date \<Rightarrow> date \<Rightarrow> date list" where
  "date_range s e = [s..e]"

text \<open>
  \<^verbatim>\<open>prices.filter(pl.col("date") == date)\<close> followed by the dictionary comprehension
  \<^verbatim>\<open>{row["ticker"]: row["close"] for row in ...}\<close>: a later row overwrites an earlier one.
\<close>

definition prices_on :: "price_row list \<Rightarrow> date \<Rightarrow> (string \<rightharpoonup> rat)" where
  "prices_on prices d =
     foldl (\<lambda>m row. m(row_ticker row \<mapsto> close row)) Map.empty
       (filter (\<lambda>row. row_date row = d) prices)"

text \<open>
  The inner loop \<^verbatim>\<open>for trade in rebalancing_trades\<close>. An exception of \<open>buy\<close> or
  \<open>sell\<close> leaves \<^verbatim>\<open>run\<close>, so only the error is kept. A trade whose side is neither
  string is executed by no branch and still logged.
\<close>

fun execute_trades ::
  "portfolio \<Rightarrow> trade list \<Rightarrow> trade list \<Rightarrow> error + (portfolio \<times> trade list)" where
  "execute_trades p trade_records [] = Inr (p, trade_records)"
| "execute_trades p trade_records (t # ts) =
     (if side t = ''sell'' then
        (case sell p (trade_ticker t) (trade_shares t) (trade_price t) (trade_date t) of
           Inl (e, _) \<Rightarrow> Inl e
         | Inr p' \<Rightarrow> execute_trades p' (trade_records @ [t]) ts)
      else if side t = ''buy'' then
        (case buy p (trade_ticker t) (trade_shares t) (trade_price t) (trade_date t) of
           Inl (e, _) \<Rightarrow> Inl e
         | Inr p' \<Rightarrow> execute_trades p' (trade_records @ [t]) ts)
      else execute_trades p (trade_records @ [t]) ts)"

record loop_state =
  current_portfolio :: portfolio
  last_rebalance_date :: "date option"
  equity_records :: "equity_record list"
  trade_records :: "trade list"

definition equity_record_of :: "portfolio \<Rightarrow> (string \<rightharpoonup> rat) \<Rightarrow> date \<Rightarrow> equity_record" where
  "equity_record_of p prices_dict d =
     (let total_value = get_total_value p (Some prices_dict);
          positions_value' = get_holdings_value p prices_dict;
          positions_value_sum = py_sum (dict_values positions_value')
      in \<lparr>er_date = d, portfolio_value = total_value, er_cash = cash p,
          positions_value = positions_value_sum\<rparr>)"

text \<open>
  One pass of the body of \<^verbatim>\<open>for date in list_of_dates\<close>. The planner is a parameter
  of the model: \<^verbatim>\<open>run\<close> only calls it, and the specification has it read the ledger
  without changing it. The target weights are handed to the planner as they are.
\<close>

definition run_day ::
  "(portfolio \<Rightarrow> 'w \<Rightarrow> (string \<rightharpoonup> rat) \<Rightarrow> date \<Rightarrow> error + trade list)
     \<Rightarrow> price_row list \<Rightarrow> 'w \<Rightarrow> backtest_config \<Rightarrow> loop_state \<Rightarrow> date \<Rightarrow> error + loop_state" where
  "run_day planner prices target_weights config st d =
     (let prices_dict = prices_on prices d in
      case should_rebalance d (last_rebalance_date st) (rebalance_frequency config) of
        Inl e \<Rightarrow> Inl e
      | Inr rebalancing \<Rightarrow>
          (case (if rebalancing then
                   (case planner (current_portfolio st) target_weights prices_dict d of
                      Inl e \<Rightarrow> Inl e
                    | Inr rebalancing_trades \<Rightarrow>
                        (case execute_trades (current_portfolio st) (trade_records st)
                                rebalancing_trades of
                           Inl e \<Rightarrow> Inl e
                         | Inr (p', recs) \<Rightarrow>
                             Inr (st\<lparr>current_portfolio := p', trade_records := recs,
                                     last_rebalance_date := Some d\<rparr>)))
                 else Inr st) of
             Inl e \<Rightarrow> Inl e
           | Inr st1 \<Rightarrow>
               Inr (st1\<lparr>equity_records := equity_records st1
                          @ [equity_record_of (current_portfolio st1) prices_dict d]\<rparr>)))"

fun run_loop ::
  "(portfolio \<Rightarrow> 'w \<Rightarrow> (string \<rightharpoonup> rat) \<Rightarrow> date \<Rightarrow> error + trade list)
     \<Rightarrow> price_row list \<Rightarrow> 'w \<Rightarrow> backtest_config \<Rightarrow> loop_state \<Rightarrow> date list
     \<Rightarrow> error + loop_state" where
  "run_loop planner prices target_weights config st [] = Inr st"
| "run_loop planner prices target_weights config st (d # ds) =
     (case run_day planner prices target_weights config st d of
        Inl e \<Rightarrow> Inl e
      | Inr st' \<Rightarrow> run_loop planner prices target_weights config st' ds)"

definition initial_state :: "backtest_config \<Rightarrow> loop_state" where
  "initial_state config =
     \<lparr>current_portfolio = Portfolio (initial_cash config), last_rebalance_date = None,
      equity_records = [], trade_records = []\<rparr>"

definition run ::
  "(portfolio \<Rightarrow> 'w \<Rightarrow> (string \<rightharpoonup> rat) \<Rightarrow> date \<Rightarrow> error + trade list)
     \<Rightarrow> price_row list \<Rightarrow> 'w \<Rightarrow> backtest_config \<Rightarrow> error + backtest_result" where
  "run planner prices target_weights config =
     (let list_of_dates = date_range (start_date config) (end_date config) in
      case run_loop planner prices target_weights config (initial_state config) list_of_dates of
        Inl e \<Rightarrow> Inl e
      | Inr st \<Rightarrow> Inr \<lparr>equity_curve = equity_records st, trades = trade_records st\<rparr>)"

section \<open>Properties of the ledger\<close>

subsection \<open>Dictionary and sum lemmas\<close>

lemma foldl_plus_sum_list: "foldl (+) a xs = (a::rat) + sum_list xs"
  by (induction xs arbitrary: a) (simp_all add: add.assoc)

lemma py_sum_sum_list: "py_sum xs = sum_list xs"
  by (simp add: py_sum_def foldl_plus_sum_list)

lemma dict_get_set_same: "dict_get (dict_set d k v) k = Some v"
  by (induction d k v rule: dict_set.induct) (simp_all add: dict_get_def)

lemma dict_get_set_other: "k' \<noteq> k \<Longrightarrow> dict_get (dict_set d k v) k' = dict_get d k'"
  by (induction d k v rule: dict_set.induct) (simp_all add: dict_get_def)

lemma dict_get_in_values: "dict_get d k = Some v \<Longrightarrow> v \<in> set (dict_values d)"
  by (auto simp: dict_get_def dict_values_def dest: map_of_SomeD intro: rev_image_eqI)

lemma dict_get_None_iff: "dict_get d k = None \<longleftrightarrow> k \<notin> set (dict_keys d)"
  by (simp add: dict_get_def dict_keys_def map_of_eq_None_iff)

lemma dict_keys_set:
  "dict_keys (dict_set d k v) =
     (if k \<in> set (dict_keys d) then dict_keys d else dict_keys d @ [k])"
  by (induction d k v rule: dict_set.induct) (auto simp: dict_keys_def)

lemma set_dict_values_set:
  "set (dict_values (dict_set d k v)) \<subseteq> insert v (set (dict_values d))"
  by (induction d k v rule: dict_set.induct) (auto simp: dict_values_def)

lemma set_dict_del: "set (dict_del d k) \<subseteq> set d"
  by (induction d k rule: dict_del.induct) auto

lemma distinct_dict_del: "distinct (dict_keys d) \<Longrightarrow> distinct (dict_keys (dict_del d k))"
proof (induction d k rule: dict_del.induct)
  case (1 k)
  then show ?case by (simp add: dict_keys_def)
next
  case (2 k' v' d k)
  have "fst ` set (dict_del d k) \<subseteq> fst ` set d"
    using set_dict_del [of d k] by blast
  with 2 show ?case by (auto simp: dict_keys_def)
qed

subsection \<open>The two operations, case by case\<close>

lemma buy_cases:
  "buy p tk sh pr d =
    (if cash p < sh * pr then Inl (InsufficientCash, p)
     else case dict_get (positions p) tk of
       None \<Rightarrow> Inr \<lparr>cash = cash p - sh * pr,
                   positions = dict_set (positions p) tk
                     \<lparr>ticker = tk, shares = sh, entry_price = pr, entry_date = d\<rparr>\<rparr>
     | Some ex \<Rightarrow>
         if shares ex + sh = 0 then Inl (ZeroDivisionError, p\<lparr>cash := cash p - sh * pr\<rparr>)
         else Inr \<lparr>cash = cash p - sh * pr,
                   positions = dict_set (positions p) tk
                     \<lparr>ticker = tk, shares = shares ex + sh,
                      entry_price = (shares ex * entry_price ex + sh * pr) / (shares ex + sh),
                      entry_date = entry_date ex\<rparr>\<rparr>)"
  by (cases p) (simp add: buy_def Let_def split: option.splits)

lemma sell_cases:
  "sell p tk sh pr d =
    (if sh \<le> 0 then Inl (InvalidOrder, p)
     else case dict_get (positions p) tk of
       None \<Rightarrow> Inl (NoPosition, p)
     | Some held \<Rightarrow>
         if shares held < sh then Inl (InsufficientShares, p)
         else if sh = shares held
           then Inr \<lparr>cash = cash p + sh * pr, positions = dict_del (positions p) tk\<rparr>
           else Inr \<lparr>cash = cash p + sh * pr,
                     positions = dict_set (positions p) tk (held\<lparr>shares := shares held - sh\<rparr>)\<rparr>)"
  by (cases p) (simp add: sell_def Let_def split: option.splits)

subsection \<open>Valuation\<close>

text \<open>
  Claim C10. Called without a price map, \<open>get_total_value\<close> returns the cash balance
  and nothing else, whatever positions the ledger holds.
\<close>

theorem total_value_without_prices: "get_total_value p None = cash p"
  by (simp add: get_total_value_def)

text \<open>
  Claim C5. With a price map, \<open>get_total_value\<close> is the cash plus, over the held
  positions, shares times the price of the position's ticker, a ticker with no price
  counting as 0: the positions without a price can be left out of the sum altogether.
  The function has no failing branch.
\<close>

theorem total_value_with_prices:
  "get_total_value p (Some pm) =
     cash p + (\<Sum>pos\<leftarrow>dict_values (positions p).
                 shares pos * (case pm (ticker pos) of None \<Rightarrow> 0 | Some v \<Rightarrow> v))
   \<and> get_total_value p (Some pm) =
     cash p + (\<Sum>pos\<leftarrow>filter (\<lambda>pos. pm (ticker pos) \<noteq> None) (dict_values (positions p)).
                 shares pos * the (pm (ticker pos)))"
proof -
  have drop: "(\<Sum>pos\<leftarrow>ps. shares pos * (case pm (ticker pos) of None \<Rightarrow> 0 | Some v \<Rightarrow> v))
      = (\<Sum>pos\<leftarrow>filter (\<lambda>pos. pm (ticker pos) \<noteq> None) ps. shares pos * the (pm (ticker pos)))"
    for ps :: "position list"
    by (induction ps) (auto split: option.splits)
  have "get_total_value p (Some pm) =
     cash p + (\<Sum>pos\<leftarrow>dict_values (positions p).
                 shares pos * (case pm (ticker pos) of None \<Rightarrow> 0 | Some v \<Rightarrow> v))"
    by (simp add: get_total_value_def py_sum_sum_list get_or_def)
  with drop show ?thesis by simp
qed

theorem total_value_with_prices_witness:
  "get_total_value
     \<lparr>cash = 4500,
      positions = [(''AAPL'', \<lparr>ticker = ''AAPL'', shares = 30, entry_price = 100,
                                entry_date = mk_date 2020 1 1\<rparr>),
                   (''MSFT'', \<lparr>ticker = ''MSFT'', shares = 50, entry_price = 50,
                                entry_date = mk_date 2020 1 1\<rparr>)]\<rparr>
     (Some [''AAPL'' \<mapsto> 110]) = 4500 + 30 * 110"
  using total_value_with_prices [of
     "\<lparr>cash = 4500,
      positions = [(''AAPL'', \<lparr>ticker = ''AAPL'', shares = 30, entry_price = 100,
                                entry_date = mk_date 2020 1 1\<rparr>),
                   (''MSFT'', \<lparr>ticker = ''MSFT'', shares = 50, entry_price = 50,
                                entry_date = mk_date 2020 1 1\<rparr>)]\<rparr>"
     "[''AAPL'' \<mapsto> 110]"]
  by (simp add: dict_values_def)


subsection \<open>Buying\<close>





subsection \<open>Average cost\<close>

text \<open>
  Claim C1, as amended. On a ledger that does not hold the ticker yet, buying \<open>s1\<close>
  shares at \<open>p1\<close> and then \<open>s2\<close> more at \<open>p2\<close> (both buys succeeding) leaves a
  position of \<open>s1 + s2\<close> shares with average cost \<open>(s1*p1 + s2*p2) / (s1 + s2)\<close> and the
  date of the first buy; a following successful sell of a part of it lowers the shares and
  changes neither the average cost nor the date.
\<close>

theorem buy_twice_average_cost:
  assumes fresh: "dict_get (positions p) tk = None"
      and b1: "buy p tk s1 p1 d1 = Inr q1"
      and b2: "buy q1 tk s2 p2 d2 = Inr q2"
  shows "\<exists>pos. dict_get (positions q2) tk = Some pos
           \<and> shares pos = s1 + s2
           \<and> entry_price pos = (s1 * p1 + s2 * p2) / (s1 + s2)
           \<and> entry_date pos = d1
           \<and> (\<forall>s3 p3 d3 q3. sell q2 tk s3 p3 d3 = Inr q3 \<and> s3 \<noteq> s1 + s2 \<longrightarrow>
                 (\<exists>pos'. dict_get (positions q3) tk = Some pos'
                    \<and> shares pos' = s1 + s2 - s3
                    \<and> entry_price pos' = entry_price pos
                    \<and> entry_date pos' = d1))"
proof -
  let ?e1 = "\<lparr>ticker = tk, shares = s1, entry_price = p1, entry_date = d1\<rparr>"
  let ?e2 = "\<lparr>ticker = tk, shares = s1 + s2,
              entry_price = (s1 * p1 + s2 * p2) / (s1 + s2), entry_date = d1\<rparr>"
  from fresh b1 have q1: "dict_get (positions q1) tk = Some ?e1"
    by (auto simp: buy_cases dict_get_set_same split: if_splits)
  from q1 b2 have q2: "dict_get (positions q2) tk = Some ?e2"
    by (auto simp: buy_cases dict_get_set_same split: if_splits)
  have after: "\<exists>pos'. dict_get (positions q3) tk = Some pos'
                    \<and> shares pos' = s1 + s2 - s3
                    \<and> entry_price pos' = entry_price ?e2
                    \<and> entry_date pos' = d1"
    if "sell q2 tk s3 p3 d3 = Inr q3 \<and> s3 \<noteq> s1 + s2" for s3 p3 d3 q3
    using that q2 by (auto simp: sell_cases dict_get_set_same split: if_splits)
  from q2 after show ?thesis by auto
qed

theorem buy_twice_average_cost_witness:
  "dict_get (positions (Portfolio 100000)) ''AAPL'' = None
   \<and> buy (Portfolio 100000) ''AAPL'' 100 150 (mk_date 2020 1 1)
       = Inr \<lparr>cash = 85000, positions = [(''AAPL'', \<lparr>ticker = ''AAPL'', shares = 100,
                 entry_price = 150, entry_date = mk_date 2020 1 1\<rparr>)]\<rparr>
   \<and> buy \<lparr>cash = 85000, positions = [(''AAPL'', \<lparr>ticker = ''AAPL'', shares = 100,
                 entry_price = 150, entry_date = mk_date 2020 1 1\<rparr>)]\<rparr>
          ''AAPL'' 100 160 (mk_date 2020 1 5)
       = Inr \<lparr>cash = 69000, positions = [(''AAPL'', \<lparr>ticker = ''AAPL'', shares = 200,
                 entry_price = 155, entry_date = mk_date 2020 1 1\<rparr>)]\<rparr>
   \<and> sell \<lparr>cash = 69000, positions = [(''AAPL'', \<lparr>ticker = ''AAPL'', shares = 200,
                 entry_price = 155, entry_date = mk_date 2020 1 1\<rparr>)]\<rparr>
          ''AAPL'' 50 170 (mk_date 2020 1 9)
       = Inr \<lparr>cash = 77500, positions = [(''AAPL'', \<lparr>ticker = ''AAPL'', shares = 150,
                 entry_price = 155, entry_date = mk_date 2020 1 1\<rparr>)]\<rparr>
   \<and> (\<exists>pos pos'.
         dict_get (positions \<lparr>cash = 69000, positions = [(''AAPL'', \<lparr>ticker = ''AAPL'',
                 shares = 200, entry_price = 155, entry_date = mk_date 2020 1 1\<rparr>)]\<rparr>) ''AAPL''
               = Some pos
         \<and> shares pos = 100 + 100
         \<and> entry_price pos = (100 * 150 + 100 * 160) / (100 + 100)
         \<and> entry_date pos = mk_date 2020 1 1
         \<and> dict_get (positions \<lparr>cash = 77500, positions = [(''AAPL'', \<lparr>ticker = ''AAPL'',
                 shares = 150, entry_price = 155, entry_date = mk_date 2020 1 1\<rparr>)]\<rparr>) ''AAPL''
               = Some pos'
         \<and> shares pos' = 100 + 100 - 50
         \<and> entry_price pos' = entry_price pos
         \<and> entry_date pos' = mk_date 2020 1 1)"
proof -
  let ?q1 = "\<lparr>cash = 85000, positions = [(''AAPL'', \<lparr>ticker = ''AAPL'', shares = 100,
                 entry_price = 150, entry_date = mk_date 2020 1 1\<rparr>)]\<rparr>"
  let ?q2 = "\<lparr>cash = 69000, positions = [(''AAPL'', \<lparr>ticker = ''AAPL'', shares = 200,
                 entry_price = 155, entry_date = mk_date 2020 1 1\<rparr>)]\<rparr>"
  let ?q3 = "\<lparr>cash = 77500, positions = [(''AAPL'', \<lparr>ticker = ''AAPL'', shares = 150,
                 entry_price = 155, entry_date = mk_date 2020 1 1\<rparr>)]\<rparr>"
  have f: "dict_get (positions (Portfolio 100000)) ''AAPL'' = None"
    by (simp add: Portfolio_def dict_get_def)
  have b1: "buy (Portfolio 100000) ''AAPL'' 100 150 (mk_date 2020 1 1) = Inr ?q1"
    by (simp add: buy_cases Portfolio_def dict_get_def)
  have b2: "buy ?q1 ''AAPL'' 100 160 (mk_date 2020 1 5) = Inr ?q2"
    by (simp add: buy_cases dict_get_def)
  have s3: "sell ?q2 ''AAPL'' 50 170 (mk_date 2020 1 9) = Inr ?q3"
    by (simp add: sell_cases dict_get_def)
  have ne: "(50::rat) \<noteq> 100 + 100" by simp
  from buy_twice_average_cost [OF f b1 b2] obtain pos where
    p: "dict_get (positions ?q2) ''AAPL'' = Some pos" "shares pos = 100 + 100"
       "entry_price pos = (100 * 150 + 100 * 160) / (100 + 100)"
       "entry_date pos = mk_date 2020 1 1"
    and after: "\<forall>s3 p3 d3 q3. sell ?q2 ''AAPL'' s3 p3 d3 = Inr q3 \<and> s3 \<noteq> 100 + 100 \<longrightarrow>
                 (\<exists>pos'. dict_get (positions q3) ''AAPL'' = Some pos'
                    \<and> shares pos' = 100 + 100 - s3
                    \<and> entry_price pos' = entry_price pos
                    \<and> entry_date pos' = mk_date 2020 1 1)"
    by blast
  from after s3 ne obtain pos' where
    p': "dict_get (positions ?q3) ''AAPL'' = Some pos'" "shares pos' = 100 + 100 - 50"
        "entry_price pos' = entry_price pos" "entry_date pos' = mk_date 2020 1 1"
    by blast
  from f b1 b2 s3 p p' show ?thesis by blast
qed

text \<open>
  On a ledger that holds the ticker already, the two buys average over the old position
  as well: 100 shares held at 150, then 100 at 160 and 100 at 170, give 300 shares at an
  average cost of 160, not 200 shares at 165.
\<close>

theorem buy_twice_held_counterexample:
  "buy \<lparr>cash = 85000, positions = [(''AAPL'', \<lparr>ticker = ''AAPL'', shares = 100,
                 entry_price = 150, entry_date = mk_date 2020 1 1\<rparr>)]\<rparr>
          ''AAPL'' 100 160 (mk_date 2020 1 5)
       = Inr \<lparr>cash = 69000, positions = [(''AAPL'', \<lparr>ticker = ''AAPL'', shares = 200,
                 entry_price = 155, entry_date = mk_date 2020 1 1\<rparr>)]\<rparr>
   \<and> buy \<lparr>cash = 69000, positions = [(''AAPL'', \<lparr>ticker = ''AAPL'', shares = 200,
                 entry_price = 155, entry_date = mk_date 2020 1 1\<rparr>)]\<rparr>
          ''AAPL'' 100 170 (mk_date 2020 1 9)
       = Inr \<lparr>cash = 52000, positions = [(''AAPL'', \<lparr>ticker = ''AAPL'', shares = 300,
                 entry_price = 160, entry_date = mk_date 2020 1 1\<rparr>)]\<rparr>
   \<and> (160::rat) \<noteq> (100 * 160 + 100 * 170) / (100 + 100)
   \<and> (300::rat) \<noteq> 100 + 100"
  by (simp add: buy_cases dict_get_def)

subsection \<open>Order validation and the ledger invariant\<close>

lemma sell_nonpositive_shares: "sh \<le> 0 \<Longrightarrow> sell p tk sh pr d = Inl (InvalidOrder, p)"
  by (simp add: sell_cases)

lemma distinct_dict_set: "distinct (dict_keys d) \<Longrightarrow> distinct (dict_keys (dict_set d k v))"
  by (simp add: dict_keys_set)

lemma list_all_dict_set:
  "list_all P (dict_values d) \<Longrightarrow> P v \<Longrightarrow> list_all P (dict_values (dict_set d k v))"
  using set_dict_values_set [of d k v] by (auto simp: list_all_iff)

lemma list_all_dict_del:
  "list_all P (dict_values d) \<Longrightarrow> list_all P (dict_values (dict_del d k))"
  using set_dict_del [of d k] by (auto simp: list_all_iff dict_values_def)

lemma dict_get_del_same: "distinct (dict_keys d) \<Longrightarrow> dict_get (dict_del d k) k = None"
  by (induction d k rule: dict_del.induct)
     (auto simp: dict_get_def dict_keys_def map_of_eq_None_iff)

lemma buy_preserves_inv:
  assumes inv: "ledger_inv p" and pos: "0 < sh" "0 < pr" and ok: "buy p tk sh pr d = Inr q"
  shows "ledger_inv q"
proof (cases "dict_get (positions p) tk")
  case None
  with ok inv pos show ?thesis
    by (auto simp: buy_cases ledger_inv_def distinct_dict_set list_all_dict_set
             split: if_splits)
next
  case (Some ex)
  then have "ex \<in> set (dict_values (positions p))" by (rule dict_get_in_values)
  with inv have "0 < shares ex" by (simp add: ledger_inv_def list_all_iff)
  with pos have "0 < shares ex + sh" by simp
  with Some ok inv pos show ?thesis
    by (auto simp: buy_cases ledger_inv_def distinct_dict_set list_all_dict_set
             split: if_splits)
qed

lemma sell_preserves_inv:
  assumes inv: "ledger_inv p" and pos: "0 < pr" and ok: "sell p tk sh pr d = Inr q"
  shows "ledger_inv q"
proof -
  from ok have sh: "0 < sh" by (auto simp: sell_cases split: if_splits)
  from ok obtain held where held: "dict_get (positions p) tk = Some held" "sh \<le> shares held"
    by (auto simp: sell_cases split: if_splits option.splits)
  from sh pos have "0 \<le> sh * pr" by simp
  with inv have c: "0 \<le> cash p + sh * pr" by (simp add: ledger_inv_def)
  show ?thesis
  proof (cases "sh = shares held")
    case True
    with ok held sh have "q = \<lparr>cash = cash p + sh * pr, positions = dict_del (positions p) tk\<rparr>"
      by (simp add: sell_cases)
    with inv c show ?thesis
      by (simp add: ledger_inv_def distinct_dict_del list_all_dict_del)
  next
    case False
    with held have "0 < shares held - sh" by simp
    moreover from False ok held sh
    have "q = \<lparr>cash = cash p + sh * pr,
               positions = dict_set (positions p) tk (held\<lparr>shares := shares held - sh\<rparr>)\<rparr>"
      by (simp add: sell_cases)
    ultimately show ?thesis using inv c
      by (simp add: ledger_inv_def distinct_dict_set list_all_dict_set)
  qed
qed

lemma sell_all_removes_position:
  assumes "distinct (dict_keys (positions p))"
      and "dict_get (positions p) tk = Some held"
      and "sell p tk (shares held) pr d = Inr q"
  shows "dict_get (positions q) tk = None"
  using assms by (auto simp: sell_cases dict_get_del_same split: if_splits)

lemma failed_order_changes_nothing:
  assumes "ledger_inv p" and "0 < sh"
  shows "buy p tk sh pr d = Inl (e, q) \<Longrightarrow> e = InsufficientCash \<and> q = p"
    and "sell p tk sh pr d = Inl (e, q) \<Longrightarrow> q = p"
proof -
  show "sell p tk sh pr d = Inl (e, q) \<Longrightarrow> q = p"
    by (auto simp: sell_cases split: if_splits option.splits)
  assume b: "buy p tk sh pr d = Inl (e, q)"
  show "e = InsufficientCash \<and> q = p"
  proof (cases "dict_get (positions p) tk")
    case None
    with b show ?thesis by (auto simp: buy_cases split: if_splits)
  next
    case (Some ex)
    then have "ex \<in> set (dict_values (positions p))" by (rule dict_get_in_values)
    with assms have "shares ex + sh \<noteq> 0" by (auto simp: ledger_inv_def list_all_iff)
    with Some b show ?thesis by (auto simp: buy_cases split: if_splits)
  qed
qed

text \<open>
  Claim C4. \<open>sell\<close> rejects a share count that is not positive
  (\<open>sell_nonpositive_shares\<close>); \<open>buy\<close> has no such test. On a ledger with 100 in cash,
  buying \<open>-5\<close> shares at 10 succeeds, raises the cash to 150 and stores a position of
  \<open>-5\<close> shares; buying 0 shares succeeds and stores a position of 0 shares.
\<close>

theorem buy_accepts_nonpositive_shares:
  "buy (Portfolio 100) ''AAPL'' (- 5) 10 (mk_date 2020 1 1)
     = Inr \<lparr>cash = 150, positions = [(''AAPL'', \<lparr>ticker = ''AAPL'', shares = - 5,
               entry_price = 10, entry_date = mk_date 2020 1 1\<rparr>)]\<rparr>
   \<and> buy (Portfolio 100) ''AAPL'' 0 10 (mk_date 2020 1 1)
     = Inr \<lparr>cash = 100, positions = [(''AAPL'', \<lparr>ticker = ''AAPL'', shares = 0,
               entry_price = 10, entry_date = mk_date 2020 1 1\<rparr>)]\<rparr>"
  by (simp add: buy_cases Portfolio_def dict_get_def)

text \<open>
  Claim C3. With positive share counts both operations keep the ledger invariant
  (\<open>buy_preserves_inv\<close>, \<open>sell_preserves_inv\<close>) and a failed order changes nothing
  (\<open>failed_order_changes_nothing\<close>). A buy of a negative number of shares at a positive
  price is accepted, and the ledger it leaves holds a position with negative shares.
\<close>

theorem invariant_broken_by_negative_buy:
  "ledger_inv (Portfolio 100)
   \<and> buy (Portfolio 100) ''AAPL'' (- 5) 10 (mk_date 2020 1 1)
     = Inr \<lparr>cash = 150, positions = [(''AAPL'', \<lparr>ticker = ''AAPL'', shares = - 5,
               entry_price = 10, entry_date = mk_date 2020 1 1\<rparr>)]\<rparr>
   \<and> \<not> ledger_inv \<lparr>cash = 150, positions = [(''AAPL'', \<lparr>ticker = ''AAPL'', shares = - 5,
               entry_price = 10, entry_date = mk_date 2020 1 1\<rparr>)]\<rparr>"
  by (simp add: buy_cases Portfolio_def dict_get_def ledger_inv_def dict_values_def dict_keys_def)


section \<open>Properties of the rebalance schedule\<close>

lemma date_2024_01_15: "ord2ymd (mk_date 2024 1 15) = (2024, 1, 15)"
  by code_simp

lemma date_2024_01_20: "ord2ymd (mk_date 2024 1 20) = (2024, 1, 20)"
  by code_simp

lemma date_2024_02_01: "ord2ymd (mk_date 2024 2 1) = (2024, 2, 1)"
  by code_simp

lemma date_2025_01_15: "ord2ymd (mk_date 2025 1 15) = (2025, 1, 15)"
  by code_simp

lemma weekly_rebalance_after_first:
  "should_rebalance current_date (Some l) ''weekly'' = Inr (7 \<le> days_between current_date l)"
  by (simp add: should_rebalance_def)

text \<open>
  Claim C6. Once a rebalance has happened the weekly rule holds: the answer is true exactly
  when at least 7 days have passed (\<open>weekly_rebalance_after_first\<close>). On the first date,
  with no last rebalance date, the weekly branch does not answer true: it raises
  \<open>TypeError\<close>.
\<close>

theorem weekly_rebalance_first_date:
  "should_rebalance current_date None ''weekly'' = Inl TypeError"
  by (simp add: should_rebalance_def)

theorem weekly_rebalance_first_date_witness:
  "should_rebalance (mk_date 2024 1 1) None ''weekly'' = Inl TypeError"
  using weekly_rebalance_first_date [of "mk_date 2024 1 1"] by simp

text \<open>
  Claim C7. For the monthly frequency the answer is true exactly when there is no last
  rebalance date or its month or its year differs from the current date's; with the last
  rebalance on 2024-01-15 it is true on 2024-02-01 and false on 2024-01-20.
\<close>

theorem monthly_rebalance:
  "should_rebalance current_date prev ''monthly''
     = Inr (case prev of
              None \<Rightarrow> True
            | Some l \<Rightarrow> month_of l \<noteq> month_of current_date \<or> year_of l \<noteq> year_of current_date)
   \<and> should_rebalance (mk_date 2024 2 1) (Some (mk_date 2024 1 15)) ''monthly'' = Inr True
   \<and> should_rebalance (mk_date 2024 1 20) (Some (mk_date 2024 1 15)) ''monthly'' = Inr False"
proof -
  have general: "should_rebalance current_date prev ''monthly''
     = Inr (case prev of
              None \<Rightarrow> True
            | Some l \<Rightarrow> month_of l \<noteq> month_of current_date \<or> year_of l \<noteq> year_of current_date)"
    by (simp add: should_rebalance_def split: option.splits)
  have feb: "should_rebalance (mk_date 2024 2 1) (Some (mk_date 2024 1 15)) ''monthly'' = Inr True"
    by (simp add: should_rebalance_def month_of_def year_of_def date_2024_01_15 date_2024_02_01)
  have jan: "should_rebalance (mk_date 2024 1 20) (Some (mk_date 2024 1 15)) ''monthly'' = Inr False"
    by (simp add: should_rebalance_def month_of_def year_of_def date_2024_01_15 date_2024_01_20)
  from general feb jan show ?thesis by blast
qed

theorem monthly_rebalance_witness:
  "should_rebalance (mk_date 2025 1 15) (Some (mk_date 2024 1 15)) ''monthly'' = Inr True
   \<and> should_rebalance (mk_date 2024 1 15) None ''monthly'' = Inr True"
  using monthly_rebalance [of "mk_date 2025 1 15" "Some (mk_date 2024 1 15)"]
        monthly_rebalance [of "mk_date 2024 1 15" None]
  by (simp add: month_of_def year_of_def date_2024_01_15 date_2025_01_15)

section \<open>Properties of the trade planner\<close>

lemma append_two_groups:
  assumes A: "\<forall>x\<in>set xs. P x" and B: "\<forall>x\<in>set ys. \<not> P x"
      and i: "i < length (xs @ ys)" and j: "j < length (xs @ ys)"
      and Pi: "\<not> P ((xs @ ys) ! i)" and Pj: "P ((xs @ ys) ! j)"
  shows "j < i"
proof -
  have "length xs \<le> i"
  proof (rule ccontr)
    assume "\<not> length xs \<le> i"
    then have "i < length xs" by simp
    then have "(xs @ ys) ! i \<in> set xs" by (simp add: nth_append)
    with A Pi show False by blast
  qed
  moreover have "j < length xs"
  proof (rule ccontr)
    assume "\<not> j < length xs"
    then have "length xs \<le> j" by simp
    with j have "(xs @ ys) ! j \<in> set ys" by (simp add: nth_append)
    with B Pj show False by blast
  qed
  ultimately show ?thesis by simp
qed

lemma calculate_trades_shape:
  assumes "calculate_trades p target_weights prices d = Inr ts"
  shows "\<exists>xs. ts = filter (\<lambda>t. side t = ''sell'') xs @ filter (\<lambda>t. side t = ''buy'') xs"
  using assms by (auto simp: calculate_trades_def Let_def split: if_splits sum.splits)
lemma swap_plan:
  "calculate_trades
     \<lparr>cash = 5000, positions = [(''AAPL'', \<lparr>ticker = ''AAPL'', shares = 50, entry_price = 100,
                                 entry_date = mk_date 2020 1 1\<rparr>)]\<rparr>
     [(''MSFT'', 1)] [''AAPL'' \<mapsto> 100, ''MSFT'' \<mapsto> 50] (mk_date 2020 1 2)
   = Inr [\<lparr>trade_date = mk_date 2020 1 2, trade_ticker = ''AAPL'', trade_shares = 50,
           trade_price = 100, side = ''sell''\<rparr>,
          \<lparr>trade_date = mk_date 2020 1 2, trade_ticker = ''MSFT'', trade_shares = 200,
           trade_price = 50, side = ''buy''\<rparr>]"
  by (simp add: calculate_trades_def get_total_value_def py_sum_def dict_values_def get_or_def
        dict_keys_def plan_ticker_def dict_get_def tolerance_def Let_def)

text \<open>
  Claim C8. Whenever \<open>calculate_trades\<close> succeeds, every sell trade of the returned
  sequence comes before every buy trade.
\<close>

theorem sells_before_buys:
  assumes "calculate_trades p target_weights prices d = Inr ts"
  shows "\<forall>i j. i < length ts \<and> j < length ts
            \<and> side (ts ! i) = ''buy'' \<and> side (ts ! j) = ''sell'' \<longrightarrow> j < i"
proof (intro allI impI)
  fix i j
  assume h: "i < length ts \<and> j < length ts \<and> side (ts ! i) = ''buy'' \<and> side (ts ! j) = ''sell''"
  from calculate_trades_shape [OF assms] obtain xs where
    ts: "ts = filter (\<lambda>t. side t = ''sell'') xs @ filter (\<lambda>t. side t = ''buy'') xs"
    by blast
  have A: "\<forall>x\<in>set (filter (\<lambda>t. side t = ''sell'') xs). side x = ''sell''" by simp
  have B: "\<forall>x\<in>set (filter (\<lambda>t. side t = ''buy'') xs). \<not> side x = ''sell''" by simp
  from h ts have Pi: "\<not> side ((filter (\<lambda>t. side t = ''sell'') xs @ filter (\<lambda>t. side t = ''buy'') xs) ! i) = ''sell''"
    by simp
  from h ts have Pj: "side ((filter (\<lambda>t. side t = ''sell'') xs @ filter (\<lambda>t. side t = ''buy'') xs) ! j) = ''sell''"
    by simp
  from h ts have i: "i < length (filter (\<lambda>t. side t = ''sell'') xs @ filter (\<lambda>t. side t = ''buy'') xs)"
    and j: "j < length (filter (\<lambda>t. side t = ''sell'') xs @ filter (\<lambda>t. side t = ''buy'') xs)"
    by simp_all
  show "j < i"
    by (rule append_two_groups [where P = "\<lambda>t. side t = ''sell''", OF A B i j Pi Pj])
qed

theorem sells_before_buys_witness:
  "calculate_trades
     \<lparr>cash = 5000, positions = [(''AAPL'', \<lparr>ticker = ''AAPL'', shares = 50, entry_price = 100,
                                 entry_date = mk_date 2020 1 1\<rparr>)]\<rparr>
     [(''MSFT'', 1)] [''AAPL'' \<mapsto> 100, ''MSFT'' \<mapsto> 50] (mk_date 2020 1 2)
   = Inr [\<lparr>trade_date = mk_date 2020 1 2, trade_ticker = ''AAPL'', trade_shares = 50,
           trade_price = 100, side = ''sell''\<rparr>,
          \<lparr>trade_date = mk_date 2020 1 2, trade_ticker = ''MSFT'', trade_shares = 200,
           trade_price = 50, side = ''buy''\<rparr>]
   \<and> (0::nat) < 1"
proof -
  let ?ts = "[\<lparr>trade_date = mk_date 2020 1 2, trade_ticker = ''AAPL'', trade_shares = 50,
           trade_price = 100, side = ''sell''\<rparr>,
          \<lparr>trade_date = mk_date 2020 1 2, trade_ticker = ''MSFT'', trade_shares = 200,
           trade_price = 50, side = ''buy''\<rparr>]"
  have h: "(1::nat) < length ?ts \<and> (0::nat) < length ?ts
           \<and> side (?ts ! 1) = ''buy'' \<and> side (?ts ! 0) = ''sell''"
    by simp
  from sells_before_buys [OF swap_plan] h have "(0::nat) < 1" by blast
  with swap_plan show ?thesis by blast
qed


section \<open>Properties of the simulation loop\<close>

lemma run_day_equity:
  assumes "run_day planner prices tw config st d = Inr st'"
  shows "equity_records st' = equity_records st
           @ [equity_record_of (current_portfolio st') (prices_on prices d) d]"
  using assms
  by (auto simp: run_day_def Let_def split: sum.splits if_splits prod.splits)

lemma run_loop_snoc:
  "run_loop planner prices tw config st (ds @ [d]) =
     (case run_loop planner prices tw config st ds of
        Inl e \<Rightarrow> Inl e
      | Inr st1 \<Rightarrow> run_day planner prices tw config st1 d)"
  by (induction ds arbitrary: st) (auto split: sum.splits)

lemma run_loop_equity:
  assumes "run_loop planner prices tw config st ds = Inr st'"
  shows "\<exists>new. equity_records st' = equity_records st @ new
           \<and> length new = length ds
           \<and> (\<forall>k<length ds. \<exists>stk.
                 run_loop planner prices tw config st (take (Suc k) ds) = Inr stk
                 \<and> new ! k = equity_record_of (current_portfolio stk)
                                (prices_on prices (ds ! k)) (ds ! k))"
  using assms
proof (induction ds arbitrary: st' rule: rev_induct)
  case Nil
  then show ?case by simp
next
  case (snoc d ds)
  from snoc.prems obtain st1 where
    l: "run_loop planner prices tw config st ds = Inr st1" and
    s: "run_day planner prices tw config st1 d = Inr st'"
    by (auto simp: run_loop_snoc split: sum.splits)
  from snoc.IH [OF l] obtain new where
    n1: "equity_records st1 = equity_records st @ new" and
    n2: "length new = length ds" and
    n3: "\<forall>k<length ds. \<exists>stk.
           run_loop planner prices tw config st (take (Suc k) ds) = Inr stk
           \<and> new ! k = equity_record_of (current_portfolio stk)
                          (prices_on prices (ds ! k)) (ds ! k)"
    by blast
  let ?r = "equity_record_of (current_portfolio st') (prices_on prices d) d"
  let ?new = "new @ [?r]"
  from run_day_equity [OF s] n1 have e: "equity_records st' = equity_records st @ ?new"
    by simp
  have len: "length ?new = length (ds @ [d])" using n2 by simp
  have each: "\<exists>stk. run_loop planner prices tw config st (take (Suc k) (ds @ [d])) = Inr stk
                 \<and> ?new ! k = equity_record_of (current_portfolio stk)
                                (prices_on prices ((ds @ [d]) ! k)) ((ds @ [d]) ! k)"
    if k: "k < length (ds @ [d])" for k
  proof (cases "k < length ds")
    case True
    from n3 [rule_format, OF True] obtain stk :: loop_state where
      "run_loop planner prices tw config st (take (Suc k) ds) = Inr stk"
      "new ! k = equity_record_of (current_portfolio stk) (prices_on prices (ds ! k)) (ds ! k)"
      by auto
    with True n2 show ?thesis by (auto simp: nth_append)
  next
    case False
    with k have "k = length ds" by simp
    with snoc.prems n2 show ?thesis by (auto simp: nth_append)
  qed
  from e len each show ?case by blast
qed

text \<open>
  A run over three calendar days with prices on the first and the third only: buy and hold
  of 100 shares bought at 100 on the first day.
\<close>

lemma scenario_run:
  "run calculate_trades
     [\<lparr>row_date = mk_date 2020 1 1, row_ticker = ''AAPL'', close = 100\<rparr>,
      \<lparr>row_date = mk_date 2020 1 3, row_ticker = ''AAPL'', close = 110\<rparr>]
     [(''AAPL'', 1)]
     \<lparr>start_date = mk_date 2020 1 1, end_date = mk_date 2020 1 3, initial_cash = 10000,
      rebalance_frequency = ''never'', transaction_cost = 0\<rparr>
   = Inr \<lparr>equity_curve =
            [\<lparr>er_date = mk_date 2020 1 1, portfolio_value = 10000, er_cash = 0,
              positions_value = 10000\<rparr>,
             \<lparr>er_date = mk_date 2020 1 2, portfolio_value = 0, er_cash = 0,
              positions_value = 0\<rparr>,
             \<lparr>er_date = mk_date 2020 1 3, portfolio_value = 11000, er_cash = 0,
              positions_value = 11000\<rparr>],
          trades = [\<lparr>trade_date = mk_date 2020 1 1, trade_ticker = ''AAPL'',
                     trade_shares = 100, trade_price = 100, side = ''buy''\<rparr>]\<rparr>"
  by code_simp

text \<open>
  Claim C9. When \<open>run\<close> returns a result, the dates of the equity curve are the calendar
  days from \<open>start_date\<close> to \<open>end_date\<close>, each once and in ascending order, whether or
  not the price table has rows for them; and the record of the \<open>k\<close>-th day is made from
  the ledger as the loop leaves it after that day: total value under the day's prices, the
  ledger's cash, and the sum of the holdings values under the day's prices.
\<close>

theorem run_equity_curve:
  assumes "run planner prices tw config = Inr res"
  shows "map er_date (equity_curve res) = [start_date config..end_date config]
       \<and> (\<forall>k<length (equity_curve res). \<exists>st.
             run_loop planner prices tw config (initial_state config)
               (take (Suc k) [start_date config..end_date config]) = Inr st
             \<and> equity_curve res ! k =
                 \<lparr>er_date = [start_date config..end_date config] ! k,
                  portfolio_value =
                    get_total_value (current_portfolio st)
                      (Some (prices_on prices ([start_date config..end_date config] ! k))),
                  er_cash = cash (current_portfolio st),
                  positions_value =
                    py_sum (dict_values (get_holdings_value (current_portfolio st)
                      (prices_on prices ([start_date config..end_date config] ! k))))\<rparr>)"
proof -
  let ?ds = "[start_date config..end_date config]"
  from assms obtain st' where
    l: "run_loop planner prices tw config (initial_state config) ?ds = Inr st'" and
    res: "res = \<lparr>equity_curve = equity_records st', trades = trade_records st'\<rparr>"
    by (auto simp: run_def date_range_def Let_def split: sum.splits)
  from run_loop_equity [OF l] obtain new where
    n1: "equity_records st' = equity_records (initial_state config) @ new" and
    n2: "length new = length ?ds" and
    n3: "\<forall>k<length ?ds. \<exists>stk.
           run_loop planner prices tw config (initial_state config) (take (Suc k) ?ds) = Inr stk
           \<and> new ! k = equity_record_of (current_portfolio stk)
                          (prices_on prices (?ds ! k)) (?ds ! k)"
    by blast
  from n1 res have eq: "equity_curve res = new" by (simp add: initial_state_def)
  have dates: "map er_date new = ?ds"
  proof (rule nth_equalityI)
    show "length (map er_date new) = length ?ds" using n2 by simp
  next
    fix k assume "k < length (map er_date new)"
    with n2 have k: "k < length ?ds" by simp
    from n3 [rule_format, OF k] obtain stk :: loop_state where
      "new ! k = equity_record_of (current_portfolio stk) (prices_on prices (?ds ! k)) (?ds ! k)"
      by auto
    with k n2 show "map er_date new ! k = ?ds ! k"
      by (simp add: equity_record_of_def Let_def)
  qed
  from n2 n3 have recs: "\<forall>k<length new. \<exists>st.
             run_loop planner prices tw config (initial_state config) (take (Suc k) ?ds) = Inr st
             \<and> new ! k =
                 \<lparr>er_date = ?ds ! k,
                  portfolio_value =
                    get_total_value (current_portfolio st) (Some (prices_on prices (?ds ! k))),
                  er_cash = cash (current_portfolio st),
                  positions_value =
                    py_sum (dict_values (get_holdings_value (current_portfolio st)
                      (prices_on prices (?ds ! k))))\<rparr>"
    by (simp add: equity_record_of_def Let_def)
  from eq dates recs show ?thesis by simp
qed

theorem run_equity_curve_witness:
  "run calculate_trades
     [\<lparr>row_date = mk_date 2020 1 1, row_ticker = ''AAPL'', close = 100\<rparr>,
      \<lparr>row_date = mk_date 2020 1 3, row_ticker = ''AAPL'', close = 110\<rparr>]
     [(''AAPL'', 1)]
     \<lparr>start_date = mk_date 2020 1 1, end_date = mk_date 2020 1 3, initial_cash = 10000,
      rebalance_frequency = ''never'', transaction_cost = 0\<rparr>
   = Inr \<lparr>equity_curve =
            [\<lparr>er_date = mk_date 2020 1 1, portfolio_value = 10000, er_cash = 0,
              positions_value = 10000\<rparr>,
             \<lparr>er_date = mk_date 2020 1 2, portfolio_value = 0, er_cash = 0,
              positions_value = 0\<rparr>,
             \<lparr>er_date = mk_date 2020 1 3, portfolio_value = 11000, er_cash = 0,
              positions_value = 11000\<rparr>],
          trades = [\<lparr>trade_date = mk_date 2020 1 1, trade_ticker = ''AAPL'',
                     trade_shares = 100, trade_price = 100, side = ''buy''\<rparr>]\<rparr>
   \<and> [mk_date 2020 1 1, mk_date 2020 1 2, mk_date 2020 1 3]
       = [mk_date 2020 1 1..mk_date 2020 1 3]"
proof -
  have "map er_date (equity_curve
          \<lparr>equity_curve =
            [\<lparr>er_date = mk_date 2020 1 1, portfolio_value = 10000, er_cash = 0,
              positions_value = 10000\<rparr>,
             \<lparr>er_date = mk_date 2020 1 2, portfolio_value = 0, er_cash = 0,
              positions_value = 0\<rparr>,
             \<lparr>er_date = mk_date 2020 1 3, portfolio_value = 11000, er_cash = 0,
              positions_value = 11000\<rparr>],
          trades = [\<lparr>trade_date = mk_date 2020 1 1, trade_ticker = ''AAPL'',
                     trade_shares = 100, trade_price = 100, side = ''buy''\<rparr>]\<rparr>)
        = [start_date \<lparr>start_date = mk_date 2020 1 1, end_date = mk_date 2020 1 3,
                       initial_cash = 10000, rebalance_frequency = ''never'',
                       transaction_cost = 0\<rparr>
           ..end_date \<lparr>start_date = mk_date 2020 1 1, end_date = mk_date 2020 1 3,
                       initial_cash = 10000, rebalance_frequency = ''never'',
                       transaction_cost = 0\<rparr>]"
    by (rule conjunct1 [OF run_equity_curve [OF scenario_run]])
  then have "[mk_date 2020 1 1, mk_date 2020 1 2, mk_date 2020 1 3]
       = [mk_date 2020 1 1..mk_date 2020 1 3]"
    by simp
  with scenario_run show ?thesis by (rule conjI)
qed

end
